theory Spec2Isabelle
  imports Main
begin

section \<open>The LimaCharlie backend of sigmac: data model\<close>

text \<open>
  The development embeds \<^verbatim>\<open>tools/sigma/backends/limacharlie.py\<close>. A Python object is a
  value of \<open>pyobj\<close>. A dictionary is an association list in insertion order with distinct keys.
  A \<open>char\<close> stands for one character of a Python string.

  \<open>PRegexMod\<close> is a \<^verbatim>\<open>SigmaRegularExpressionModifier\<close>, \<open>PTypeMod\<close> any other
  \<^verbatim>\<open>SigmaTypeModifier\<close>, \<open>PCompiledRe\<close> what \<^verbatim>\<open>re.compile\<close> returns. \<open>PStrOf x\<close> is the
  text \<^verbatim>\<open>str(x)\<close> of a container or library object \<open>x\<close>, left unevaluated: it occurs only
  in the \<^verbatim>\<open>value\<close> entry of a leaf built under \<^verbatim>\<open>isAllStringValues\<close> and never in an input.
\<close>

datatype pyobj =
    PNone
  | PBool bool
  | PInt int
  | PStr string
  | PList "pyobj list"
  | PDict "(string \<times> pyobj) list"
  | PRegexMod string
  | PTypeMod string
  | PCompiledRe string
  | PStrOf pyobj

datatype error =
    NotImplementedError string
  | TypeError string
  | KeyError string

abbreviation bslash :: char where
  "bslash \<equiv> CHR 0x5C"

abbreviation dquote :: char where
  "dquote \<equiv> CHR 0x22"

subsection \<open>Dictionaries\<close>

text \<open>\<^verbatim>\<open>d[k] = v\<close>: an existing key keeps its position, a new key goes last.\<close>

fun dict_set :: "(string \<times> pyobj) list \<Rightarrow> string \<Rightarrow> pyobj \<Rightarrow> (string \<times> pyobj) list" where
  "dict_set [] k v = [(k, v)]"
| "dict_set ((k', v') # d) k v = (if k' = k then (k, v) # d else (k', v') # dict_set d k v)"

text \<open>\<^verbatim>\<open>d.update(e)\<close>: the entries of \<open>e\<close> are assigned in their order.\<close>

fun dict_update :: "(string \<times> pyobj) list \<Rightarrow> (string \<times> pyobj) list \<Rightarrow> (string \<times> pyobj) list" where
  "dict_update d [] = d"
| "dict_update d ((k, v) # e) = dict_update (dict_set d k v) e"

subsection \<open>Text of a value\<close>

definition digit_char :: "nat \<Rightarrow> char" where
  "digit_char n = ''0123456789'' ! (n mod 10)"

fun decimal :: "nat \<Rightarrow> string" where
  "decimal n = (if n < 10 then [digit_char n] else decimal (n div 10) @ [digit_char n])"

declare decimal.simps [simp del]

text \<open>\<^verbatim>\<open>str(val)\<close> for a value that is not a string already.\<close>

fun py_str :: "pyobj \<Rightarrow> pyobj" where
  "py_str PNone = PStr ''None''"
| "py_str (PBool b) = PStr (if b then ''True'' else ''False'')"
| "py_str (PInt i) = PStr (if i < 0 then CHR ''-'' # decimal (nat (- i)) else decimal (nat i))"
| "py_str (PStr s) = PStr s"
| "py_str x = PStrOf x"

text \<open>\<^verbatim>\<open>str(type(value))\<close>, for the messages of the type errors.\<close>

fun type_name :: "pyobj \<Rightarrow> string" where
  "type_name PNone = ''NoneType''"
| "type_name (PBool _) = ''bool''"
| "type_name (PInt _) = ''int''"
| "type_name (PStr _) = ''str''"
| "type_name (PList _) = ''list''"
| "type_name (PDict _) = ''dict''"
| "type_name (PRegexMod _) = ''sigma.parser.modifiers.type.SigmaRegularExpressionModifier''"
| "type_name (PTypeMod n) = n"
| "type_name (PCompiledRe _) = ''re.Pattern''"
| "type_name (PStrOf _) = ''str''"

definition py_type :: "pyobj \<Rightarrow> string" where
  "py_type x = ''<class '' @ [CHR 0x27] @ type_name x @ [CHR 0x27] @ ''>''"

section \<open>The mapping registry\<close>

text \<open>
  The field mappings of a log source are a dictionary (a \<^verbatim>\<open>None\<close> entry drops the clause) or a
  callable.
\<close>

datatype fieldmap =
    Table "(string \<times> string option) list"
  | Callable "string \<Rightarrow> string option"

record SigmaLCConfig =
  topLevelParams :: "(string \<times> pyobj) list"
  preConditions :: "(string \<times> pyobj) list option"
  fieldMappings :: fieldmap
  isAllStringValues :: bool
  isKeywordsSupported :: bool

definition windowsEventLogFieldName :: "string \<Rightarrow> string" where
  "windowsEventLogFieldName fieldName =
     (if ''EventID'' = fieldName then ''Event/System/EventID''
      else ''Event/EventData/'' @ fieldName)"

definition windows_process_creation :: SigmaLCConfig where
  "windows_process_creation = \<lparr>
     topLevelParams = [(''events'', PList [PStr ''NEW_PROCESS'', PStr ''EXISTING_PROCESS''])],
     preConditions = Some [(''op'', PStr ''is windows'')],
     fieldMappings = Table [
       (''CommandLine'', Some ''event/COMMAND_LINE''),
       (''Image'', Some ''event/FILE_PATH''),
       (''ParentImage'', Some ''event/PARENT/FILE_PATH''),
       (''ParentCommandLine'', Some ''event/PARENT/COMMAND_LINE''),
       (''User'', Some ''event/USER_NAME''),
       (''OriginalFileName'', None),
       (''NewProcessName'', Some ''event/FILE_PATH''),
       (''ProcessCommandLine'', Some ''event/COMMAND_LINE''),
       (''Command'', Some ''event/COMMAND_LINE'')],
     isAllStringValues = False,
     isKeywordsSupported = False \<rparr>"

definition windows_event_log :: SigmaLCConfig where
  "windows_event_log = \<lparr>
     topLevelParams = [(''target'', PStr ''log''), (''log type'', PStr ''wel'')],
     preConditions = None,
     fieldMappings = Callable (\<lambda>fieldName. Some (windowsEventLogFieldName fieldName)),
     isAllStringValues = True,
     isKeywordsSupported = False \<rparr>"

definition dns :: SigmaLCConfig where
  "dns = \<lparr>
     topLevelParams = [(''event'', PStr ''DNS_REQUEST'')],
     preConditions = None,
     fieldMappings = Table [(''query'', Some ''event/DOMAIN_NAME'')],
     isAllStringValues = False,
     isKeywordsSupported = False \<rparr>"

definition linux :: SigmaLCConfig where
  "linux = \<lparr>
     topLevelParams = [(''events'', PList [PStr ''NEW_PROCESS'', PStr ''EXISTING_PROCESS''])],
     preConditions = Some [(''op'', PStr ''is linux'')],
     fieldMappings = Table [
       (''keywords'', Some ''event/COMMAND_LINE''),
       (''exe'', Some ''event/FILE_PATH''),
       (''type'', None)],
     isAllStringValues = False,
     isKeywordsSupported = True \<rparr>"

definition netflow :: SigmaLCConfig where
  "netflow = \<lparr>
     topLevelParams = [(''event'', PStr ''NETWORK_CONNECTIONS'')],
     preConditions = None,
     fieldMappings = Table [
       (''destination.port'', Some ''event/NETWORK_ACTIVITY/DESTINATION/PORT''),
       (''source.port'', Some ''event/NETWORK_ACTIVITY/SOURCE/PORT'')],
     isAllStringValues = False,
     isKeywordsSupported = True \<rparr>"

definition allFieldMappings :: "(string \<times> SigmaLCConfig) list" where
  "allFieldMappings = [
     (''windows/process_creation/'', windows_process_creation),
     (''windows//'', windows_event_log),
     (''windows_defender//'', windows_event_log),
     (''dns//'', dns),
     (''linux//'', linux),
     (''unix//'', linux),
     (''netflow//'', netflow)]"

section \<open>The backend object\<close>

text \<open>
  The four attributes that \<^verbatim>\<open>generate\<close> assigns on \<^verbatim>\<open>self\<close> before it translates.
\<close>

record backend =
  self_fieldMappingInEffect :: fieldmap
  self_preCondition :: "(string \<times> pyobj) list option"
  self_isAllStringValues :: bool
  self_isKeywordsSupported :: bool

definition backend_of :: "SigmaLCConfig \<Rightarrow> backend" where
  "backend_of cfg = \<lparr>
     self_fieldMappingInEffect = fieldMappings cfg,
     self_preCondition = preConditions cfg,
     self_isAllStringValues = isAllStringValues cfg,
     self_isKeywordsSupported = isKeywordsSupported cfg \<rparr>"

section \<open>The value pattern compiler\<close>

text \<open>
  \<^verbatim>\<open>re.sub('([".^$]|\\\\(?![*?]))', '\\\\\g<1>', val)\<close>: the pattern matches one character, a
  double quote, dot, caret or dollar, or a backslash that no \<^verbatim>\<open>*\<close> or \<^verbatim>\<open>?\<close> follows; the
  replacement is a backslash and the character matched.
\<close>

definition followed_by :: "string \<Rightarrow> string \<Rightarrow> bool" where
  "followed_by cs S = (case cs of [] \<Rightarrow> False | d # _ \<Rightarrow> d \<in> set S)"

fun re_sub_escape :: "string \<Rightarrow> string" where
  "re_sub_escape [] = []"
| "re_sub_escape (c # cs) =
     (if c \<in> set [dquote, CHR ''.'', CHR ''^'', CHR ''$'']
         \<or> (c = bslash \<and> \<not> followed_by cs ''*?'')
      then bslash # c # re_sub_escape cs
      else c # re_sub_escape cs)"

text \<open>\<^verbatim>\<open>re.sub('\\*', '.*', val)\<close> and \<^verbatim>\<open>re.sub('\\?', '.', val)\<close>.\<close>

definition re_sub_star :: "string \<Rightarrow> string" where
  "re_sub_star val = concat (map (\<lambda>c. if c = CHR ''*'' then ''.*'' else [c]) val)"

definition re_sub_qmark :: "string \<Rightarrow> string" where
  "re_sub_qmark val = concat (map (\<lambda>c. if c = CHR ''?'' then ''.'' else [c]) val)"

definition startswith_star :: "string \<Rightarrow> bool" where
  "startswith_star val = (case val of [] \<Rightarrow> False | c # _ \<Rightarrow> c = CHR ''*'')"

definition endswith_star :: "string \<Rightarrow> bool" where
  "endswith_star val = (case rev val of [] \<Rightarrow> False | c # _ \<Rightarrow> c = CHR ''*'')"

text \<open>
  \<^verbatim>\<open>_valuePatternToLcOp\<close>. The slices \<^verbatim>\<open>val[1:-1]\<close>, \<^verbatim>\<open>val[:-1]\<close> and \<^verbatim>\<open>val[1:]\<close> are
  \<open>butlast (tl val)\<close>, \<open>butlast val\<close> and \<open>tl val\<close>, also on the empty string.
\<close>

definition valuePatternToLcOp :: "backend \<Rightarrow> pyobj \<Rightarrow> string \<times> pyobj" where
  "valuePatternToLcOp self val =
     (case val of
        PStr s \<Rightarrow>
          if CHR ''*'' \<in> set (butlast (tl s))
          then (''matches'', PStr (re_sub_qmark (re_sub_star (re_sub_escape s))))
          else if endswith_star s \<and> startswith_star s then (''contains'', PStr (butlast (tl s)))
          else if endswith_star s then (''starts with'', PStr (butlast s))
          else if startswith_star s then (''ends with'', PStr (tl s))
          else (''is'', PStr s)
      | _ \<Rightarrow> (''is'', if self_isAllStringValues self then py_str val else val))"

text \<open>\<^verbatim>\<open>isinstance(val, str)\<close>.\<close>

fun is_str :: "pyobj \<Rightarrow> bool" where
  "is_str (PStr _) = True"
| "is_str _ = False"

subsection \<open>The pattern the specification describes\<close>

text \<open>
  Following the specification's words: every regular-expression metacharacter is escaped, every
  \<^verbatim>\<open>*\<close> becomes \<^verbatim>\<open>.*\<close> and every \<^verbatim>\<open>?\<close> becomes a dot.
\<close>

definition regex_metachars :: string where
  "regex_metachars = ''.^$+()[]{}|'' @ [bslash]"

fun spec_translatedPattern :: "string \<Rightarrow> string" where
  "spec_translatedPattern [] = []"
| "spec_translatedPattern (c # cs) =
     (if c = CHR ''*'' then ''.*''
      else if c = CHR ''?'' then ''.''
      else if c \<in> set regex_metachars then [bslash, c]
      else [c]) @ spec_translatedPattern cs"

section \<open>The node translator\<close>

text \<open>
  The expression tree of the rule parser. A map item is the pair of a field name and a value;
  a value node is a bare string or integer.
\<close>

datatype node =
    ConditionAND "node list"
  | ConditionOR "node list"
  | ConditionNOT node
  | NodeSubexpression node
  | MapItem string pyobj
  | ValueNode pyobj
  | ListNode "node list"

text \<open>
  A list comprehension \<^verbatim>\<open>[f(x) for x in xs]\<close> whose body may raise: the first exception, in
  the order of the elements, ends it.
\<close>

fun collect :: "('a \<Rightarrow> error + 'b) \<Rightarrow> 'a list \<Rightarrow> error + 'b list" where
  "collect f [] = Inr []"
| "collect f (x # xs) =
     (case f x of
        Inl e \<Rightarrow> Inl e
      | Inr y \<Rightarrow> (case collect f xs of Inl e \<Rightarrow> Inl e | Inr ys \<Rightarrow> Inr (y # ys)))"

lemma collect_cong [fundef_cong]:
  "xs = ys \<Longrightarrow> (\<And>x. x \<in> set ys \<Longrightarrow> f x = g x) \<Longrightarrow> collect f xs = collect g ys"
  by (induction ys arbitrary: xs) (auto split: sum.splits)

text \<open>
  The methods below take \<^verbatim>\<open>self.generateNode\<close> as the argument \<open>gen\<close>; \<open>generateNode\<close>
  passes itself.
\<close>

definition not_None :: "pyobj list \<Rightarrow> pyobj list" where
  "not_None generated = filter (\<lambda>g. g \<noteq> PNone) generated"

definition generateANDNode :: "(node \<Rightarrow> error + pyobj) \<Rightarrow> node list \<Rightarrow> error + pyobj" where
  "generateANDNode gen node =
     (case collect gen node of
        Inl e \<Rightarrow> Inl e
      | Inr generated \<Rightarrow>
          (let filtered = not_None generated
           in if filtered = [] then Inr PNone
              else if 1 = length filtered then Inr (hd filtered)
              else Inr (PDict [(''op'', PStr ''and''), (''rules'', PList filtered)])))"

text \<open>\<^verbatim>\<open>self._fieldMappingInEffect["keywords"]\<close>, with no guard around it.\<close>

definition path_obj :: "string option \<Rightarrow> pyobj" where
  "path_obj p = (case p of None \<Rightarrow> PNone | Some s \<Rightarrow> PStr s)"

definition not_subscriptable :: string where
  "not_subscriptable = [CHR 0x27] @ ''function'' @ [CHR 0x27] @ '' object is not subscriptable''"

definition keywords_path :: "backend \<Rightarrow> error + pyobj" where
  "keywords_path self =
     (case self_fieldMappingInEffect self of
        Table t \<Rightarrow>
          (case map_of t ''keywords'' of
             None \<Rightarrow> Inl (KeyError ''keywords'')
           | Some p \<Rightarrow> Inr (path_obj p))
      | Callable f \<Rightarrow> Inl (TypeError not_subscriptable))"

definition keyword_rule :: "backend \<Rightarrow> pyobj \<Rightarrow> error + pyobj" where
  "keyword_rule self k =
     (let (op, newVal) = valuePatternToLcOp self k
      in case keywords_path self of
           Inl e \<Rightarrow> Inl e
         | Inr path \<Rightarrow> Inr (PDict [(''op'', PStr op), (''path'', path), (''value'', newVal)]))"

definition generateORNode :: "backend \<Rightarrow> (node \<Rightarrow> error + pyobj) \<Rightarrow> node list \<Rightarrow> error + pyobj" where
  "generateORNode self gen node =
     (case collect gen node of
        Inl e \<Rightarrow> Inl e
      | Inr generated \<Rightarrow>
          (let filtered = not_None generated
           in if filtered = [] then Inr PNone
              else
                (case (if is_str (hd filtered)
                       then (if \<not> self_isKeywordsSupported self
                             then Inl (NotImplementedError ''Full-text keyboard searches not supported.'')
                             else collect (keyword_rule self) filtered)
                       else Inr filtered) of
                   Inl e \<Rightarrow> Inl e
                 | Inr filtered' \<Rightarrow>
                     if 1 = length filtered' then Inr (hd filtered')
                     else Inr (PDict [(''op'', PStr ''or''), (''rules'', PList filtered')]))))"

definition generateNOTNode :: "(node \<Rightarrow> error + pyobj) \<Rightarrow> node \<Rightarrow> error + pyobj" where
  "generateNOTNode gen item =
     (case gen item of
        Inl e \<Rightarrow> Inl e
      | Inr PNone \<Rightarrow> Inr PNone
      | Inr (PDict generated) \<Rightarrow> Inr (PDict (dict_set generated ''not'' (PBool True)))
      | Inr _ \<Rightarrow> Inl (NotImplementedError ''Not operator not available on non-dict nodes.''))"

definition generateSubexpressionNode :: "(node \<Rightarrow> error + pyobj) \<Rightarrow> node \<Rightarrow> error + pyobj" where
  "generateSubexpressionNode gen items = gen items"

definition generateListNode :: "(node \<Rightarrow> error + pyobj) \<Rightarrow> node list \<Rightarrow> error + pyobj" where
  "generateListNode gen node =
     (case collect gen node of Inl e \<Rightarrow> Inl e | Inr generated \<Rightarrow> Inr (PList generated))"

text \<open>
  The field name of a map item goes through the callable, or through the dictionary, where a
  missing key is the backend's own failure.
\<close>

definition map_fieldname :: "backend \<Rightarrow> string \<Rightarrow> error + string option" where
  "map_fieldname self fieldname =
     (case self_fieldMappingInEffect self of
        Callable f \<Rightarrow> Inr (f fieldname)
      | Table t \<Rightarrow>
          (case map_of t fieldname of
             None \<Rightarrow> Inl (NotImplementedError (''Field name '' @ fieldname @ '' not supported by backend.''))
           | Some p \<Rightarrow> Inr p))"

definition leaf :: "backend \<Rightarrow> string \<Rightarrow> pyobj \<Rightarrow> pyobj" where
  "leaf self fieldname v =
     (let (op, newVal) = valuePatternToLcOp self v
      in PDict [(''op'', PStr op), (''path'', PStr fieldname), (''value'', newVal),
                (''case sensitive'', PBool False)])"

text \<open>
  \<^verbatim>\<open>re.compile\<close> belongs to the standard library; it is taken to return the compiled pattern
  of the modifier's text.
\<close>

definition generateMapItemNode :: "backend \<Rightarrow> string \<Rightarrow> pyobj \<Rightarrow> error + pyobj" where
  "generateMapItemNode self fieldname0 val =
     (case map_fieldname self fieldname0 of
        Inl e \<Rightarrow> Inl e
      | Inr None \<Rightarrow> Inr PNone
      | Inr (Some fieldname) \<Rightarrow>
          (case val of
             PInt _ \<Rightarrow> Inr (leaf self fieldname val)
           | PBool _ \<Rightarrow> Inr (leaf self fieldname val)
           | PStr _ \<Rightarrow> Inr (leaf self fieldname val)
           | PList vs \<Rightarrow>
               (let subOps = map (leaf self fieldname) vs
                in if 1 = length subOps then Inr (hd subOps)
                   else Inr (PDict [(''op'', PStr ''or''), (''rules'', PList subOps)]))
           | PRegexMod r \<Rightarrow>
               Inr (PDict [(''op'', PStr ''matches''), (''path'', PStr fieldname), (''re'', PCompiledRe r)])
           | PTypeMod _ \<Rightarrow>
               Inl (TypeError (''Backend does not support TypeModifier: '' @ py_type val))
           | PNone \<Rightarrow>
               Inr (PDict [(''op'', PStr ''exists''), (''not'', PBool True), (''path'', PStr fieldname)])
           | _ \<Rightarrow>
               Inl (TypeError (''Backend does not support map values of type '' @ py_type val))))"

definition generateValueNode :: "pyobj \<Rightarrow> error + pyobj" where
  "generateValueNode node = Inr node"

lemma generateANDNode_cong [fundef_cong]:
  "ns = ms \<Longrightarrow> (\<And>n. n \<in> set ms \<Longrightarrow> f n = g n) \<Longrightarrow> generateANDNode f ns = generateANDNode g ms"
  unfolding generateANDNode_def by (simp cong: collect_cong)

lemma generateORNode_cong [fundef_cong]:
  "ns = ms \<Longrightarrow> (\<And>n. n \<in> set ms \<Longrightarrow> f n = g n) \<Longrightarrow>
   generateORNode self f ns = generateORNode self g ms"
  unfolding generateORNode_def by (simp cong: collect_cong)

lemma generateListNode_cong [fundef_cong]:
  "ns = ms \<Longrightarrow> (\<And>n. n \<in> set ms \<Longrightarrow> f n = g n) \<Longrightarrow> generateListNode f ns = generateListNode g ms"
  unfolding generateListNode_def by (simp cong: collect_cong)

lemma generateNOTNode_cong [fundef_cong]:
  "n = m \<Longrightarrow> f m = g m \<Longrightarrow> generateNOTNode f n = generateNOTNode g m"
  unfolding generateNOTNode_def by simp

lemma generateSubexpressionNode_cong [fundef_cong]:
  "n = m \<Longrightarrow> f m = g m \<Longrightarrow> generateSubexpressionNode f n = generateSubexpressionNode g m"
  unfolding generateSubexpressionNode_def by simp

text \<open>
  Modelled from the spec: the dispatch \<^verbatim>\<open>generateNode\<close> of the base class
  (\<^verbatim>\<open>tools/sigma/backends/base.py\<close>), one method per node kind.
\<close>

fun generateNode :: "backend \<Rightarrow> node \<Rightarrow> error + pyobj" where
  "generateNode self (ConditionAND node) = generateANDNode (generateNode self) node"
| "generateNode self (ConditionOR node) = generateORNode self (generateNode self) node"
| "generateNode self (ConditionNOT item) = generateNOTNode (generateNode self) item"
| "generateNode self (NodeSubexpression items) = generateSubexpressionNode (generateNode self) items"
| "generateNode self (MapItem fieldname val) = generateMapItemNode self fieldname val"
| "generateNode self (ValueNode node) = generateValueNode node"
| "generateNode self (ListNode node) = generateListNode (generateNode self) node"

section \<open>The document assembler\<close>

text \<open>
  The parsed rule. \<open>logsource\<close> and \<open>title\<close> are the entries of \<^verbatim>\<open>parsedyaml\<close> under these
  keys, with the types the rule format gives them (the values of the log-source declaration
  are strings, the title is required); \<open>parsedyaml\<close> holds the other top-level entries.
  \<open>parsedSearch\<close> is the root of the parsed condition.
\<close>

record sigmaparser =
  logsource :: "(string \<times> string) list"
  title :: string
  parsedyaml :: "(string \<times> pyobj) list"
  parsedSearch :: node

text \<open>
  \<^verbatim>\<open>generateQuery\<close>. Serialisation is outside the model: \<^verbatim>\<open>yaml.safe_dump\<close> followed by the
  \<^verbatim>\<open>yaml.safe_load\<close> of \<^verbatim>\<open>generate\<close> is taken to give the object back.
\<close>

definition generateQuery :: "backend \<Rightarrow> node \<Rightarrow> error + pyobj" where
  "generateQuery self parsed =
     (case generateNode self parsed of
        Inl e \<Rightarrow> Inl e
      | Inr result \<Rightarrow>
          (case self_preCondition self of
             None \<Rightarrow> Inr result
           | Some preCondition \<Rightarrow>
               Inr (PDict [(''op'', PStr ''and''), (''rules'', PList [PDict preCondition, result])])))"

text \<open>
  \<^verbatim>\<open>ls_rule['category']\<close> and \<^verbatim>\<open>ls_rule['product']\<close> with the empty string on a
  \<^verbatim>\<open>KeyError\<close>; the service is the empty string whatever the rule declares.
\<close>

definition mappingKey :: "sigmaparser \<Rightarrow> string" where
  "mappingKey sigmaparser =
     (let ls_rule = logsource sigmaparser;
          category = (case map_of ls_rule ''category'' of None \<Rightarrow> '''' | Some c \<Rightarrow> c);
          product = (case map_of ls_rule ''product'' of None \<Rightarrow> '''' | Some p \<Rightarrow> p);
          service = ''''
      in product @ ''/'' @ category @ ''/'' @ service)"

text \<open>
  \<^verbatim>\<open>respondComponents[0].setdefault("metadata", {})[key] = ruleConfig[key]\<close>, done when
  \<^verbatim>\<open>ruleConfig.get(key, None) is not None\<close>.
\<close>

definition set_metadata :: "(string \<times> pyobj) list \<Rightarrow> string \<Rightarrow> (string \<times> pyobj) list \<Rightarrow> (string \<times> pyobj) list" where
  "set_metadata ruleConfig key report =
     (case map_of ruleConfig key of
        None \<Rightarrow> report
      | Some PNone \<Rightarrow> report
      | Some v \<Rightarrow>
          (let metadata = (case map_of report ''metadata'' of Some (PDict m) \<Rightarrow> m | _ \<Rightarrow> [])
           in dict_set report ''metadata'' (PDict (dict_set metadata key v))))"

definition respondComponents :: "sigmaparser \<Rightarrow> pyobj" where
  "respondComponents sigmaparser =
     (let ruleConfig = parsedyaml sigmaparser;
          report0 = [(''action'', PStr ''report''), (''name'', PStr (title sigmaparser))];
          report1 = set_metadata ruleConfig ''tags'' report0;
          report2 = set_metadata ruleConfig ''description'' report1;
          report3 = set_metadata ruleConfig ''references'' report2;
          report4 = set_metadata ruleConfig ''level'' report3;
          report5 = set_metadata ruleConfig ''author'' report4
      in PList [PDict report5])"

text \<open>
  \<^verbatim>\<open>generate\<close>, on a backend object whose four attributes are unset (\<open>None\<close>) or hold what the
  last call assigned. It returns the document, or the exception, and the object as the call
  leaves it. The four assignments to \<^verbatim>\<open>self\<close> are \<open>assign_context\<close>: they set the attributes
  of the object, or create them when the object has none yet.

  Modelled from the spec: the \<^verbatim>\<open>generate\<close> of the base class
  (\<^verbatim>\<open>tools/sigma/backends/base.py\<close>), called as \<^verbatim>\<open>super().generate\<close>, invokes the node
  translator on the rule's root expression: it returns the text of \<^verbatim>\<open>generateQuery\<close> on the
  parsed condition, which is a string, so the early return for a value that is not a string is
  never taken.
\<close>

definition assign_context :: "backend option \<Rightarrow> SigmaLCConfig \<Rightarrow> backend" where
  "assign_context self cfg =
     (case self of
        None \<Rightarrow> backend_of cfg
      | Some b \<Rightarrow>
          b\<lparr>self_fieldMappingInEffect := fieldMappings cfg,
            self_preCondition := preConditions cfg,
            self_isAllStringValues := isAllStringValues cfg,
            self_isKeywordsSupported := isKeywordsSupported cfg\<rparr>)"

definition generate :: "backend option \<Rightarrow> sigmaparser \<Rightarrow> (error + pyobj) \<times> backend option" where
  "generate self sigmaparser =
     (case map_of allFieldMappings (mappingKey sigmaparser) of
        None \<Rightarrow>
          (Inl (NotImplementedError (''Log source '' @ mappingKey sigmaparser @ '' not supported by backend.'')),
           self)
      | Some cfg \<Rightarrow>
          (let self' = assign_context self cfg
           in (case generateQuery self' (parsedSearch sigmaparser) of
                 Inl e \<Rightarrow> Inl e
               | Inr (PDict detectComponent) \<Rightarrow>
                   Inr (PDict [(''detect'', PDict (dict_update detectComponent (topLevelParams cfg))),
                               (''respond'', respondComponents sigmaparser)])
               | Inr _ \<Rightarrow> Inl (NotImplementedError ''Selection combination not supported.''),
               Some self')))"

section \<open>What the specification says, for comparison\<close>

text \<open>The lookup key as the specification words it, service included.\<close>

definition spec_mappingKey :: "sigmaparser \<Rightarrow> string" where
  "spec_mappingKey sigmaparser =
     (let field = (\<lambda>k. case map_of (logsource sigmaparser) k of None \<Rightarrow> '''' | Some v \<Rightarrow> v)
      in field ''product'' @ ''/'' @ field ''category'' @ ''/'' @ field ''service'')"

text \<open>Dropping, unwrapping and wrapping of the surviving children of a combinator.\<close>

fun collapse :: "string \<Rightarrow> pyobj list \<Rightarrow> pyobj" where
  "collapse op [] = PNone"
| "collapse op [g] = g"
| "collapse op gs = PDict [(''op'', PStr op), (''rules'', PList gs)]"

text \<open>
  An attribute is present on the rule when the parsed rule has a value for it that is not
  \<^verbatim>\<open>None\<close> (YAML \<^verbatim>\<open>null\<close>, which is also what a key with nothing after it parses to).
\<close>

definition attribute :: "sigmaparser \<Rightarrow> string \<Rightarrow> pyobj option" where
  "attribute sigmaparser key =
     (case map_of (parsedyaml sigmaparser) key of
        None \<Rightarrow> None
      | Some PNone \<Rightarrow> None
      | Some v \<Rightarrow> Some v)"

definition metadata_keys :: "string list" where
  "metadata_keys = [''tags'', ''description'', ''references'', ''level'', ''author'']"

definition spec_metadata :: "sigmaparser \<Rightarrow> (string \<times> pyobj) list" where
  "spec_metadata sigmaparser =
     List.map_filter (\<lambda>key. map_option (Pair key) (attribute sigmaparser key)) metadata_keys"

text \<open>
  The surviving children begin with a raw string: the keyword list of an Or node. A keyword
  is matched against the path of the keyword field.
\<close>

definition keyword_list :: "pyobj list \<Rightarrow> bool" where
  "keyword_list filtered = (case filtered of [] \<Rightarrow> False | k # _ \<Rightarrow> is_str k)"

definition keyword_match :: "backend \<Rightarrow> pyobj \<Rightarrow> pyobj \<Rightarrow> pyobj" where
  "keyword_match self path k =
     PDict [(''op'', PStr (fst (valuePatternToLcOp self k))), (''path'', path),
            (''value'', snd (valuePatternToLcOp self k))]"

section \<open>Named failures, example rules and the shape of the report\<close>

text \<open>
  The report with a given metadata dictionary (none when it is empty), the entry a key
  contributes to the metadata, and the \<^verbatim>\<open>metadata\<close> of a respond block.
\<close>

definition report_with :: "sigmaparser \<Rightarrow> (string \<times> pyobj) list \<Rightarrow> (string \<times> pyobj) list" where
  "report_with sigmaparser metadata =
     [(''action'', PStr ''report''), (''name'', PStr (title sigmaparser))]
       @ (if metadata = [] then [] else [(''metadata'', PDict metadata)])"

definition entry :: "sigmaparser \<Rightarrow> string \<Rightarrow> (string \<times> pyobj) list" where
  "entry sigmaparser key = (case attribute sigmaparser key of None \<Rightarrow> [] | Some v \<Rightarrow> [(key, v)])"

definition metadata_of :: "pyobj \<Rightarrow> pyobj option" where
  "metadata_of respond = (case respond of PList [PDict report] \<Rightarrow> map_of report ''metadata'' | _ \<Rightarrow> None)"

text \<open>
  Example rules: one with attributes, in an order that is not the order of the metadata and
  with a description that is \<^verbatim>\<open>None\<close>; one that declares a service; one for a product the
  registry does not have; one whose only field the mapping drops; one for Linux.
\<close>

definition attributed_rule :: sigmaparser where
  "attributed_rule = \<lparr>
     logsource = [(''product'', ''linux'')],
     title = ''T1'',
     parsedyaml = [(''author'', PStr ''someone''), (''description'', PNone), (''level'', PStr ''high''),
                   (''status'', PStr ''stable''), (''tags'', PList [PStr ''attack.t1059''])],
     parsedSearch = MapItem ''exe'' (PStr ''/bin/sh'') \<rparr>"

definition sysmon_rule :: sigmaparser where
  "sysmon_rule = \<lparr>
     logsource = [(''product'', ''windows''), (''service'', ''sysmon'')],
     title = ''T1'',
     parsedyaml = [],
     parsedSearch = MapItem ''Image'' (PStr ''cmd.exe'') \<rparr>"

definition macos_rule :: sigmaparser where
  "macos_rule = \<lparr>
     logsource = [(''service'', ''auditd''), (''product'', ''macos'')],
     title = ''T1'',
     parsedyaml = [],
     parsedSearch = MapItem ''Image'' (PStr ''cmd.exe'') \<rparr>"

definition dropped_field_rule :: sigmaparser where
  "dropped_field_rule = \<lparr>
     logsource = [(''category'', ''process_creation''), (''product'', ''windows'')],
     title = ''T1'',
     parsedyaml = [],
     parsedSearch = ConditionAND [MapItem ''OriginalFileName'' (PStr ''cmd.exe'')] \<rparr>"

definition linux_rule :: sigmaparser where
  "linux_rule = \<lparr>
     logsource = [(''product'', ''linux'')],
     title = ''T2'',
     parsedyaml = [],
     parsedSearch = MapItem ''exe'' (PStr ''/bin/sh'') \<rparr>"

text \<open>A translation that is a raw string.\<close>

definition raw_string_result :: "error + pyobj \<Rightarrow> bool" where
  "raw_string_result r = (case r of Inl _ \<Rightarrow> False | Inr g \<Rightarrow> is_str g)"

text \<open>
  The failures the backend raises itself, by the names of the specification:
  UnsupportedLogSource, UnsupportedNegation, UnsupportedKeywordSearch.
\<close>

definition log_source_error :: "sigmaparser \<Rightarrow> error" where
  "log_source_error sigmaparser =
     NotImplementedError (''Log source '' @ mappingKey sigmaparser @ '' not supported by backend.'')"

definition not_on_raw_value :: error where
  "not_on_raw_value = NotImplementedError ''Not operator not available on non-dict nodes.''"


section \<open>Auxiliary facts\<close>

lemma collect_Inr_map: "collect f xs = Inr ys \<Longrightarrow> map Inr ys = map f xs"
  by (induction xs arbitrary: ys) (auto split: sum.splits)

lemma collect_all_Inr: "(\<And>x. x \<in> set xs \<Longrightarrow> f x = Inr (g x)) \<Longrightarrow> collect f xs = Inr (map g xs)"
  by (induction xs) auto

lemma collapse_Cons:
  "collapse op (x # xs) = (if xs = [] then x else PDict [(''op'', PStr op), (''rules'', PList (x # xs))])"
  by (cases xs) auto

lemma generateANDNode_collapse:
  "collect gen node = Inr generated \<Longrightarrow>
   generateANDNode gen node = Inr (collapse ''and'' (not_None generated))"
  unfolding generateANDNode_def
  by (cases "not_None generated") (simp_all add: Let_def collapse_Cons)

lemma generateORNode_plain:
  "collect gen node = Inr generated \<Longrightarrow> \<not> keyword_list (not_None generated) \<Longrightarrow>
   generateORNode self gen node = Inr (collapse ''or'' (not_None generated))"
  unfolding generateORNode_def
  by (cases "not_None generated") (simp_all add: Let_def keyword_list_def collapse_Cons)


lemma keyword_rule_path:
  "keywords_path self = Inr path \<Longrightarrow> keyword_rule self k = Inr (keyword_match self path k)"
  by (simp add: keyword_rule_def keyword_match_def split: prod.splits)

lemma keyword_rule_error:
  "keywords_path self = Inl e \<Longrightarrow> keyword_rule self k = Inl e"
  by (simp add: keyword_rule_def split: prod.splits)

lemma generateORNode_keywords:
  assumes "collect gen node = Inr generated" and "keyword_list (not_None generated)"
    and "self_isKeywordsSupported self" and "keywords_path self = Inr path"
  shows "generateORNode self gen node =
           Inr (collapse ''or'' (map (keyword_match self path) (not_None generated)))"
proof -
  obtain k ks where f: "not_None generated = k # ks" and k: "is_str k"
    using assms(2) by (auto simp: keyword_list_def split: list.splits)
  have c: "collect (keyword_rule self) (k # ks) = Inr (map (keyword_match self path) (k # ks))"
    by (rule collect_all_Inr) (simp add: keyword_rule_path [OF assms(4)])
  show ?thesis
    unfolding generateORNode_def
    using assms(1,3) f k c
    by (simp add: Let_def collapse_Cons del: collect.simps)
qed

lemma generateORNode_keywords_error:
  assumes "collect gen node = Inr generated" and "keyword_list (not_None generated)"
    and "self_isKeywordsSupported self" and "keywords_path self = Inl e"
  shows "generateORNode self gen node = Inl e"
proof -
  obtain k ks where f: "not_None generated = k # ks" and k: "is_str k"
    using assms(2) by (auto simp: keyword_list_def split: list.splits)
  have c: "collect (keyword_rule self) (k # ks) = Inl e"
    by (simp add: keyword_rule_error [OF assms(4)])
  show ?thesis
    unfolding generateORNode_def using assms(1,3) f k c
    by (simp add: Let_def del: collect.simps)
qed

lemma map_of_dict_set: "map_of (dict_set d k v) = (map_of d)(k \<mapsto> v)"
  by (induction d) auto

lemma set_metadata_attribute:
  "set_metadata (parsedyaml sp) key report =
     (case attribute sp key of
        None \<Rightarrow> report
      | Some v \<Rightarrow>
          dict_set report ''metadata''
            (PDict (dict_set (case map_of report ''metadata'' of Some (PDict m) \<Rightarrow> m | _ \<Rightarrow> []) key v)))"
  by (simp add: set_metadata_def attribute_def split: option.splits pyobj.splits)

lemma dict_set_fresh: "k \<notin> fst ` set d \<Longrightarrow> dict_set d k v = d @ [(k, v)]"
  by (induction d) auto

lemma set_metadata_step:
  "key \<notin> fst ` set metadata \<Longrightarrow>
   set_metadata (parsedyaml sp) key (report_with sp metadata) = report_with sp (metadata @ entry sp key)"
  by (cases "attribute sp key")
     (simp_all add: set_metadata_attribute report_with_def entry_def dict_set_fresh)

lemma fst_entry: "fst ` set (entry sp key) \<subseteq> {key}"
  by (cases "attribute sp key") (simp_all add: entry_def)

lemma spec_metadata_entries:
  "spec_metadata sp =
     entry sp ''tags'' @ entry sp ''description'' @ entry sp ''references'' @ entry sp ''level''
       @ entry sp ''author''"
  by (simp add: spec_metadata_def metadata_keys_def entry_def split: option.splits)

lemma respond_report_with: "respondComponents sp = PList [PDict (report_with sp (spec_metadata sp))]"
proof -
  have 0: "[(''action'', PStr ''report''), (''name'', PStr (title sp))] = report_with sp []"
    by (simp add: report_with_def)
  have 1: "set_metadata (parsedyaml sp) ''tags'' (report_with sp []) = report_with sp (entry sp ''tags'')"
    using set_metadata_step [of "''tags''" "[]" sp] by simp
  have 2: "set_metadata (parsedyaml sp) ''description'' (report_with sp (entry sp ''tags''))
             = report_with sp (entry sp ''tags'' @ entry sp ''description'')"
    using fst_entry [of sp "''tags''"] by (intro set_metadata_step) auto
  have 3: "set_metadata (parsedyaml sp) ''references'' (report_with sp (entry sp ''tags'' @ entry sp ''description''))
             = report_with sp ((entry sp ''tags'' @ entry sp ''description'') @ entry sp ''references'')"
    using fst_entry [of sp "''tags''"] fst_entry [of sp "''description''"]
    by (intro set_metadata_step) auto
  have 4: "set_metadata (parsedyaml sp) ''level''
             (report_with sp ((entry sp ''tags'' @ entry sp ''description'') @ entry sp ''references''))
             = report_with sp (((entry sp ''tags'' @ entry sp ''description'') @ entry sp ''references'')
                               @ entry sp ''level'')"
    using fst_entry [of sp "''tags''"] fst_entry [of sp "''description''"] fst_entry [of sp "''references''"]
    by (intro set_metadata_step) auto
  have 5: "set_metadata (parsedyaml sp) ''author''
             (report_with sp (((entry sp ''tags'' @ entry sp ''description'') @ entry sp ''references'')
                               @ entry sp ''level''))
             = report_with sp ((((entry sp ''tags'' @ entry sp ''description'') @ entry sp ''references'')
                               @ entry sp ''level'') @ entry sp ''author'')"
    using fst_entry [of sp "''tags''"] fst_entry [of sp "''description''"] fst_entry [of sp "''references''"]
      fst_entry [of sp "''level''"]
    by (intro set_metadata_step) auto
  show ?thesis
    unfolding respondComponents_def Let_def 0 1 2 3 4 5 spec_metadata_entries by simp
qed

lemma spec_metadata_keys:
  "map fst (spec_metadata sp) = filter (\<lambda>key. attribute sp key \<noteq> None) metadata_keys"
  by (simp add: spec_metadata_entries metadata_keys_def entry_def split: option.splits)

lemma spec_metadata_values: "(key, v) \<in> set (spec_metadata sp) \<Longrightarrow> attribute sp key = Some v"
  by (auto simp: spec_metadata_entries entry_def split: option.splits)

lemma spec_metadata_empty:
  "(spec_metadata sp = []) = (\<forall>key\<in>set metadata_keys. attribute sp key = None)"
  by (simp add: spec_metadata_entries metadata_keys_def entry_def split: option.splits)

lemma respond_no_attributes:
  "parsedyaml sp = [] \<Longrightarrow>
   respondComponents sp = PList [PDict [(''action'', PStr ''report''), (''name'', PStr (title sp))]]"
  by (simp add: respond_report_with report_with_def spec_metadata_entries entry_def attribute_def)

lemma attribute_Some: "attribute sp key = Some v \<Longrightarrow> map_of (parsedyaml sp) key = Some v"
  by (auto simp: attribute_def split: option.splits pyobj.splits)

lemma registry_keys:
  "map fst allFieldMappings =
     [''windows/process_creation/'', ''windows//'', ''windows_defender//'', ''dns//'',
      ''linux//'', ''unix//'', ''netflow//'']"
  by (simp add: allFieldMappings_def)

lemma assign_context_all: "assign_context self cfg = backend_of cfg"
  by (cases self) (simp_all add: assign_context_def backend_of_def)

lemma generate_found:
  assumes "map_of allFieldMappings (mappingKey sp) = Some cfg"
    and "generateQuery (backend_of cfg) (parsedSearch sp) = Inr (PDict d)"
  shows "generate self sp =
           (Inr (PDict [(''detect'', PDict (dict_update d (topLevelParams cfg))),
                        (''respond'', respondComponents sp)]),
            Some (backend_of cfg))"
  by (simp add: generate_def assign_context_all assms)

lemma generate_not_found:
  "map_of allFieldMappings (mappingKey sp) = None \<Longrightarrow>
   generate self sp = (Inl (log_source_error sp), self)"
  by (simp add: generate_def log_source_error_def)

lemma leaf_plain:
  "\<not> startswith_star s \<Longrightarrow> \<not> endswith_star s \<Longrightarrow> CHR ''*'' \<notin> set (butlast (tl s)) \<Longrightarrow>
   leaf self path (PStr s) =
     PDict [(''op'', PStr ''is''), (''path'', PStr path), (''value'', PStr s),
            (''case sensitive'', PBool False)]"
  by (simp add: leaf_def valuePatternToLcOp_def)

lemma dropped_field:
  "generateNode (backend_of windows_process_creation) (MapItem ''OriginalFileName'' (PStr ''cmd.exe''))
     = Inr PNone"
  by (simp add: generateMapItemNode_def map_fieldname_def backend_of_def windows_process_creation_def)

lemma linux_rule_context: "map_of allFieldMappings (mappingKey linux_rule) = Some linux"
  by (simp add: mappingKey_def linux_rule_def allFieldMappings_def)

lemma macos_rule_context: "map_of allFieldMappings (mappingKey macos_rule) = None"
  by (simp add: mappingKey_def macos_rule_def allFieldMappings_def)

lemma generate_object:
  "snd (generate self sp) =
     (case map_of allFieldMappings (mappingKey sp) of None \<Rightarrow> self | Some cfg \<Rightarrow> Some (backend_of cfg))"
  by (simp add: generate_def assign_context_all Let_def split: option.splits)

lemma linux_backend:
  "self_fieldMappingInEffect (backend_of linux)
     = Table [(''keywords'', Some ''event/COMMAND_LINE''), (''exe'', Some ''event/FILE_PATH''), (''type'', None)]"
  "self_isKeywordsSupported (backend_of linux)"
  "\<not> self_isAllStringValues (backend_of linux)"
  by (simp_all add: backend_of_def linux_def)

lemma netflow_backend:
  "self_fieldMappingInEffect (backend_of netflow)
     = Table [(''destination.port'', Some ''event/NETWORK_ACTIVITY/DESTINATION/PORT''),
              (''source.port'', Some ''event/NETWORK_ACTIVITY/SOURCE/PORT'')]"
  "self_isKeywordsSupported (backend_of netflow)"
  by (simp_all add: backend_of_def netflow_def)


lemma collect_values:
  "collect (generateNode self) [ValueNode a, ValueNode b] = Inr [a, b]"
  by (simp add: generateValueNode_def)

lemma keywords_path_table:
  "self_fieldMappingInEffect self = Table t \<Longrightarrow>
   keywords_path self = (case map_of t ''keywords'' of None \<Rightarrow> Inl (KeyError ''keywords'') | Some p \<Rightarrow> Inr (path_obj p))"
  by (simp add: keywords_path_def)

lemma linux_type_dropped:
  "generateNode (backend_of linux) (MapItem ''type'' (PStr ''EXECVE'')) = Inr PNone"
  by (simp add: generateMapItemNode_def map_fieldname_def linux_backend)

lemma linux_exe_leaf:
  "\<not> startswith_star s \<Longrightarrow> \<not> endswith_star s \<Longrightarrow> CHR ''*'' \<notin> set (butlast (tl s)) \<Longrightarrow>
   generateNode (backend_of linux) (MapItem ''exe'' (PStr s))
     = Inr (PDict [(''op'', PStr ''is''), (''path'', PStr ''event/FILE_PATH''), (''value'', PStr s),
                   (''case sensitive'', PBool False)])"
  by (simp add: generateMapItemNode_def map_fieldname_def linux_backend leaf_plain)

section \<open>The claims\<close>

subsection \<open>C1: the lookup key of the mapping context\<close>

text \<open>
  C1 as the specification states it: the key is product, category and service of the
  log-source declaration, joined by slashes. The code sets the service to the empty string
  whatever the rule declares: a rule for product windows and service sysmon is looked up
  under \<^verbatim>\<open>windows//\<close>, found and translated, where the key of the specification,
  \<^verbatim>\<open>windows//sysmon\<close>, is not in the table.
\<close>

theorem mapping_key_service_counterexample:
  "mappingKey sysmon_rule = ''windows//''
   \<and> spec_mappingKey sysmon_rule = ''windows//sysmon''
   \<and> spec_mappingKey sysmon_rule \<notin> set (map fst allFieldMappings)
   \<and> fst (generate None sysmon_rule) =
       Inr (PDict [(''detect'', PDict [(''op'', PStr ''is''), (''path'', PStr ''Event/EventData/Image''),
                      (''value'', PStr ''cmd.exe''), (''case sensitive'', PBool False),
                      (''target'', PStr ''log''), (''log type'', PStr ''wel'')]),
                   (''respond'', PList [PDict [(''action'', PStr ''report''), (''name'', PStr ''T1'')]])])"
proof -
  have k: "mappingKey sysmon_rule = ''windows//''"
    by (simp add: mappingKey_def sysmon_rule_def)
  have s: "spec_mappingKey sysmon_rule = ''windows//sysmon''"
    by (simp add: spec_mappingKey_def sysmon_rule_def)
  have m: "map_of allFieldMappings (mappingKey sysmon_rule) = Some windows_event_log"
    by (simp add: k allFieldMappings_def)
  have p: "parsedSearch sysmon_rule = MapItem ''Image'' (PStr ''cmd.exe'')"
    and t: "title sysmon_rule = ''T1''" and y: "parsedyaml sysmon_rule = []"
    by (simp_all add: sysmon_rule_def)
  have f: "map_fieldname (backend_of windows_event_log) ''Image'' = Inr (Some ''Event/EventData/Image'')"
    by (simp add: map_fieldname_def backend_of_def windows_event_log_def windowsEventLogFieldName_def)
  have l: "leaf (backend_of windows_event_log) ''Event/EventData/Image'' (PStr ''cmd.exe'') =
     PDict [(''op'', PStr ''is''), (''path'', PStr ''Event/EventData/Image''), (''value'', PStr ''cmd.exe''),
            (''case sensitive'', PBool False)]"
    by (rule leaf_plain) (simp_all add: startswith_star_def endswith_star_def)
  have c: "self_preCondition (backend_of windows_event_log) = None"
    by (simp add: backend_of_def windows_event_log_def)
  have q: "generateQuery (backend_of windows_event_log) (parsedSearch sysmon_rule)
      = Inr (PDict [(''op'', PStr ''is''), (''path'', PStr ''Event/EventData/Image''),
                      (''value'', PStr ''cmd.exe''), (''case sensitive'', PBool False)])"
    by (simp add: p generateQuery_def generateMapItemNode_def f l c)
  have tl: "topLevelParams windows_event_log = [(''target'', PStr ''log''), (''log type'', PStr ''wel'')]"
    by (simp add: windows_event_log_def)
  have g: "fst (generate None sysmon_rule) =
       Inr (PDict [(''detect'', PDict [(''op'', PStr ''is''), (''path'', PStr ''Event/EventData/Image''),
                      (''value'', PStr ''cmd.exe''), (''case sensitive'', PBool False),
                      (''target'', PStr ''log''), (''log type'', PStr ''wel'')]),
                   (''respond'', PList [PDict [(''action'', PStr ''report''), (''name'', PStr ''T1'')]])])"
    by (simp add: generate_found [OF m q] tl respond_no_attributes [OF y] t)
  show ?thesis using k s g by (simp add: registry_keys)
qed

text \<open>
  C1, amended. The key is the product, a slash, the category and a slash, each of the two the
  empty string when the declaration lacks it; the declared service has no part in it. When the
  key is not in the table the call fails with the error that names the log source, and leaves
  the backend object as it was.
\<close>

theorem mapping_key_product_category:
  "mappingKey sigmaparser =
     (case map_of (logsource sigmaparser) ''product'' of None \<Rightarrow> '''' | Some p \<Rightarrow> p) @ ''/'' @
     (case map_of (logsource sigmaparser) ''category'' of None \<Rightarrow> '''' | Some c \<Rightarrow> c) @ ''/''
   \<and> (mappingKey sigmaparser \<notin> set (map fst allFieldMappings) \<longrightarrow>
        generate self sigmaparser = (Inl (log_source_error sigmaparser), self))"
proof (intro conjI impI)
  show "mappingKey sigmaparser =
     (case map_of (logsource sigmaparser) ''product'' of None \<Rightarrow> '''' | Some p \<Rightarrow> p) @ ''/'' @
     (case map_of (logsource sigmaparser) ''category'' of None \<Rightarrow> '''' | Some c \<Rightarrow> c) @ ''/''"
    by (simp add: mappingKey_def Let_def)
next
  assume "mappingKey sigmaparser \<notin> set (map fst allFieldMappings)"
  then have "map_of allFieldMappings (mappingKey sigmaparser) = None"
    by (simp add: map_of_eq_None_iff)
  then show "generate self sigmaparser = (Inl (log_source_error sigmaparser), self)"
    by (rule generate_not_found)
qed

theorem mapping_key_product_category_witness:
  "mappingKey macos_rule = ''macos//''
   \<and> mappingKey macos_rule \<notin> set (map fst allFieldMappings)
   \<and> generate None macos_rule =
       (Inl (NotImplementedError ''Log source macos// not supported by backend.''), None)"
proof -
  have k: "mappingKey macos_rule = ''macos//''"
    by (simp add: mappingKey_def macos_rule_def)
  show ?thesis using mapping_key_product_category [of macos_rule None]
    by (simp add: k registry_keys log_source_error_def)
qed

subsection \<open>C2: the wildcard compilation table\<close>

text \<open>
  C2. The value pattern compiler satisfies the table of the specification:
  \<^verbatim>\<open>abc*\<close> gives (starts with, abc), \<^verbatim>\<open>*abc\<close> gives (ends with, abc), \<^verbatim>\<open>*abc*\<close> gives
  (contains, abc), \<^verbatim>\<open>a*b\<close> gives (matches, a.*b), \<^verbatim>\<open>abc\<close> gives (is, abc); the integer 5
  gives (is, "5") when all values are strings; and when they are not, a value that is not a
  string comes back unchanged with the operator is.
\<close>

theorem wildcard_compilation_table:
  "valuePatternToLcOp self (PStr ''abc*'') = (''starts with'', PStr ''abc'')
   \<and> valuePatternToLcOp self (PStr ''*abc'') = (''ends with'', PStr ''abc'')
   \<and> valuePatternToLcOp self (PStr ''*abc*'') = (''contains'', PStr ''abc'')
   \<and> valuePatternToLcOp self (PStr ''a*b'') = (''matches'', PStr ''a.*b'')
   \<and> valuePatternToLcOp self (PStr ''abc'') = (''is'', PStr ''abc'')
   \<and> (self_isAllStringValues self \<longrightarrow> valuePatternToLcOp self (PInt 5) = (''is'', PStr ''5''))
   \<and> (\<not> self_isAllStringValues self \<and> \<not> is_str v \<longrightarrow> valuePatternToLcOp self v = (''is'', v))"
proof -
  have "\<not> is_str v \<Longrightarrow> \<not> self_isAllStringValues self \<Longrightarrow> valuePatternToLcOp self v = (''is'', v)"
    by (cases v) (simp_all add: valuePatternToLcOp_def)
  moreover have "self_isAllStringValues self \<Longrightarrow> valuePatternToLcOp self (PInt 5) = (''is'', PStr ''5'')"
    by (simp add: valuePatternToLcOp_def decimal.simps digit_char_def)
  ultimately show ?thesis
    by (simp add: valuePatternToLcOp_def endswith_star_def startswith_star_def
        re_sub_qmark_def re_sub_star_def)
qed

theorem wildcard_compilation_table_witness:
  "valuePatternToLcOp (backend_of windows_event_log) (PInt 5) = (''is'', PStr ''5'')
   \<and> valuePatternToLcOp (backend_of dns) (PInt 5) = (''is'', PInt 5)
   \<and> valuePatternToLcOp (backend_of dns) (PStr ''a*b'') = (''matches'', PStr ''a.*b'')"
  using wildcard_compilation_table [of "backend_of windows_event_log" "PInt 5"]
    wildcard_compilation_table [of "backend_of dns" "PInt 5"]
  by (simp add: backend_of_def windows_event_log_def dns_def)

subsection \<open>C3: a wildcard inside the value\<close>

text \<open>
  C3. A string with a \<^verbatim>\<open>*\<close> between its first and last character is to have all its
  regular-expression metacharacters escaped. The code, evaluated: the first substitution
  escapes the double quote, the dot, the caret, the dollar and the backslash only, so in
  \<^verbatim>\<open>a*b+c\<close> the plus sign and in \<^verbatim>\<open>a*(b\<close> the parenthesis reach the pattern unescaped, where
  the pattern of the specification has them behind a backslash. The third value is a, backslash,
  star, b, star, c: the first substitution leaves the backslash before the star alone, and the
  second one rewrites that star as well.
\<close>

theorem interior_wildcard_unescaped_metachars:
  "CHR ''*'' \<in> set (butlast (tl ''a*b+c''))
   \<and> valuePatternToLcOp (backend_of dns) (PStr ''a*b+c'') = (''matches'', PStr ''a.*b+c'')
   \<and> spec_translatedPattern ''a*b+c'' = ''a.*b'' @ [bslash] @ ''+c''
   \<and> CHR ''*'' \<in> set (butlast (tl ''a*(b''))
   \<and> valuePatternToLcOp (backend_of dns) (PStr ''a*(b'') = (''matches'', PStr ''a.*(b'')
   \<and> spec_translatedPattern ''a*(b'' = ''a.*'' @ [bslash] @ ''(b''
   \<and> valuePatternToLcOp (backend_of dns) (PStr (''a'' @ [bslash] @ ''*b*c''))
       = (''matches'', PStr (''a'' @ [bslash] @ ''.*b.*c''))"
  by (simp add: valuePatternToLcOp_def re_sub_qmark_def re_sub_star_def regex_metachars_def
      followed_by_def)

subsection \<open>C4: a null root under a precondition\<close>

text \<open>
  C4. A null translation is to be elided from its parent, and a null root is not to appear
  under the and-wrapper of the precondition. The code, evaluated on a Windows
  process-creation rule whose only field is one the mapping drops: the And node of the dropped
  clause is null, as the claim says, and \<^verbatim>\<open>generateQuery\<close> then wraps that null with the
  precondition without looking at it, so the document has a null among its rules.
\<close>

theorem null_root_under_precondition:
  "generateNode (backend_of windows_process_creation)
       (ConditionAND [MapItem ''OriginalFileName'' (PStr ''cmd.exe'')]) = Inr PNone
   \<and> generateQuery (backend_of windows_process_creation)
       (ConditionAND [MapItem ''OriginalFileName'' (PStr ''cmd.exe'')])
       = Inr (PDict [(''op'', PStr ''and''), (''rules'', PList [PDict [(''op'', PStr ''is windows'')], PNone])])
   \<and> fst (generate None dropped_field_rule)
       = Inr (PDict [(''detect'',
                      PDict [(''op'', PStr ''and''),
                             (''rules'', PList [PDict [(''op'', PStr ''is windows'')], PNone]),
                             (''events'', PList [PStr ''NEW_PROCESS'', PStr ''EXISTING_PROCESS''])]),
                     (''respond'', PList [PDict [(''action'', PStr ''report''), (''name'', PStr ''T1'')]])])"
proof -
  have n: "generateNode (backend_of windows_process_creation)
       (ConditionAND [MapItem ''OriginalFileName'' (PStr ''cmd.exe'')]) = Inr PNone"
    using dropped_field by (simp add: generateANDNode_def not_None_def)
  have c: "self_preCondition (backend_of windows_process_creation) = Some [(''op'', PStr ''is windows'')]"
    by (simp add: backend_of_def windows_process_creation_def)
  have q: "generateQuery (backend_of windows_process_creation)
       (ConditionAND [MapItem ''OriginalFileName'' (PStr ''cmd.exe'')])
       = Inr (PDict [(''op'', PStr ''and''), (''rules'', PList [PDict [(''op'', PStr ''is windows'')], PNone])])"
    by (simp add: generateQuery_def n c del: generateNode.simps)
  have k: "mappingKey dropped_field_rule = ''windows/process_creation/''"
    by (simp add: mappingKey_def dropped_field_rule_def)
  have m: "map_of allFieldMappings (mappingKey dropped_field_rule) = Some windows_process_creation"
    by (simp add: k allFieldMappings_def)
  have p: "parsedSearch dropped_field_rule = ConditionAND [MapItem ''OriginalFileName'' (PStr ''cmd.exe'')]"
    and t: "title dropped_field_rule = ''T1''" and y: "parsedyaml dropped_field_rule = []"
    by (simp_all add: dropped_field_rule_def)
  have tl: "topLevelParams windows_process_creation
              = [(''events'', PList [PStr ''NEW_PROCESS'', PStr ''EXISTING_PROCESS''])]"
    by (simp add: windows_process_creation_def)
  have g: "fst (generate None dropped_field_rule)
       = Inr (PDict [(''detect'',
                      PDict [(''op'', PStr ''and''),
                             (''rules'', PList [PDict [(''op'', PStr ''is windows'')], PNone]),
                             (''events'', PList [PStr ''NEW_PROCESS'', PStr ''EXISTING_PROCESS''])]),
                     (''respond'', PList [PDict [(''action'', PStr ''report''), (''name'', PStr ''T1'')]])])"
    using q by (simp add: generate_found [OF m] p tl respond_no_attributes [OF y] t)
  show ?thesis using n q g by simp
qed

subsection \<open>C5: the keyword list of an Or node\<close>



subsection \<open>C6: collapsing of And and Or\<close>

text \<open>
  C6 as the specification states it: translating an Or with one child is translating the
  child. An Or whose one child is a bare string is a keyword list: under the Linux context it
  becomes a match against the keyword field, under the DNS context it fails, and the child
  alone translates to the string itself.
\<close>

theorem single_child_or_counterexample:
  "generateNode (backend_of linux) (ConditionOR [ValueNode (PStr ''foo'')])
     = Inr (PDict [(''op'', PStr ''is''), (''path'', PStr ''event/COMMAND_LINE''), (''value'', PStr ''foo'')])
   \<and> generateNode (backend_of linux) (ValueNode (PStr ''foo'')) = Inr (PStr ''foo'')
   \<and> generateNode (backend_of dns) (ConditionOR [ValueNode (PStr ''foo'')])
       = Inl (NotImplementedError ''Full-text keyboard searches not supported.'')
   \<and> generateNode (backend_of dns) (ValueNode (PStr ''foo'')) = Inr (PStr ''foo'')"
  by (simp add: generateORNode_def generateValueNode_def not_None_def keyword_rule_def
      keywords_path_def linux_backend valuePatternToLcOp_def startswith_star_def endswith_star_def
      path_obj_def)
     (simp add: backend_of_def dns_def)

text \<open>
  C6, amended. An And with one child translates as the child does, failure included, and so
  does an Or with one child unless the child translates to a raw string. When all children of
  a node translate, the translations stand in the order of the children; the And is null when
  none is left after the null ones are dropped, the one left when there is one, and otherwise
  the \<^verbatim>\<open>and\<close> of those left, in order; the Or is the same with \<^verbatim>\<open>or\<close>, unless the first one
  left is a raw string (the keyword list of C5).
\<close>

theorem and_or_collapsing:
  "generateNode self (ConditionAND [child]) = generateNode self child
   \<and> (\<not> raw_string_result (generateNode self child) \<longrightarrow>
        generateNode self (ConditionOR [child]) = generateNode self child)
   \<and> (collect (generateNode self) children = Inr generated \<longrightarrow>
        map Inr generated = map (generateNode self) children
        \<and> generateNode self (ConditionAND children) = Inr (collapse ''and'' (not_None generated))
        \<and> (\<not> keyword_list (not_None generated) \<longrightarrow>
             generateNode self (ConditionOR children) = Inr (collapse ''or'' (not_None generated))))"
proof (intro conjI impI)
  show "generateNode self (ConditionAND [child]) = generateNode self child"
    by (cases "generateNode self child")
       (simp_all add: generateANDNode_def not_None_def)
next
  assume "\<not> raw_string_result (generateNode self child)"
  then show "generateNode self (ConditionOR [child]) = generateNode self child"
    by (cases "generateNode self child")
       (simp_all add: generateORNode_def not_None_def raw_string_result_def)
next
  assume "collect (generateNode self) children = Inr generated"
  then show "map Inr generated = map (generateNode self) children"
    by (rule collect_Inr_map)
next
  assume "collect (generateNode self) children = Inr generated"
  then show "generateNode self (ConditionAND children) = Inr (collapse ''and'' (not_None generated))"
    by (simp add: generateANDNode_collapse)
next
  assume "collect (generateNode self) children = Inr generated"
    and "\<not> keyword_list (not_None generated)"
  then show "generateNode self (ConditionOR children) = Inr (collapse ''or'' (not_None generated))"
    by (simp add: generateORNode_plain)
qed

theorem and_or_collapsing_witness:
  "generateNode (backend_of linux) (ConditionAND [MapItem ''type'' (PStr ''EXECVE'')]) = Inr PNone
   \<and> generateNode (backend_of linux) (ConditionOR [MapItem ''exe'' (PStr ''/bin/sh'')])
       = generateNode (backend_of linux) (MapItem ''exe'' (PStr ''/bin/sh''))
   \<and> generateNode (backend_of linux)
         (ConditionOR [MapItem ''type'' (PStr ''EXECVE''), MapItem ''exe'' (PStr ''/bin/sh''),
                       MapItem ''exe'' (PStr ''/bin/bash'')])
       = Inr (PDict [(''op'', PStr ''or''),
                     (''rules'', PList [
                        PDict [(''op'', PStr ''is''), (''path'', PStr ''event/FILE_PATH''),
                               (''value'', PStr ''/bin/sh''), (''case sensitive'', PBool False)],
                        PDict [(''op'', PStr ''is''), (''path'', PStr ''event/FILE_PATH''),
                               (''value'', PStr ''/bin/bash''), (''case sensitive'', PBool False)]])])"
proof -
  have sh: "generateNode (backend_of linux) (MapItem ''exe'' (PStr ''/bin/sh''))
     = Inr (PDict [(''op'', PStr ''is''), (''path'', PStr ''event/FILE_PATH''), (''value'', PStr ''/bin/sh''),
                   (''case sensitive'', PBool False)])"
    by (rule linux_exe_leaf) (simp_all add: startswith_star_def endswith_star_def)
  have bash: "generateNode (backend_of linux) (MapItem ''exe'' (PStr ''/bin/bash''))
     = Inr (PDict [(''op'', PStr ''is''), (''path'', PStr ''event/FILE_PATH''), (''value'', PStr ''/bin/bash''),
                   (''case sensitive'', PBool False)])"
    by (rule linux_exe_leaf) (simp_all add: startswith_star_def endswith_star_def)
  have c: "collect (generateNode (backend_of linux))
             [MapItem ''type'' (PStr ''EXECVE''), MapItem ''exe'' (PStr ''/bin/sh''),
              MapItem ''exe'' (PStr ''/bin/bash'')]
           = Inr [PNone,
                  PDict [(''op'', PStr ''is''), (''path'', PStr ''event/FILE_PATH''),
                         (''value'', PStr ''/bin/sh''), (''case sensitive'', PBool False)],
                  PDict [(''op'', PStr ''is''), (''path'', PStr ''event/FILE_PATH''),
                         (''value'', PStr ''/bin/bash''), (''case sensitive'', PBool False)]]"
    by (simp add: linux_type_dropped sh bash del: generateNode.simps)
  have 1: "generateNode (backend_of linux) (ConditionAND [MapItem ''type'' (PStr ''EXECVE'')]) = Inr PNone"
    using and_or_collapsing [of "backend_of linux" "MapItem ''type'' (PStr ''EXECVE'')"]
    by (simp add: linux_type_dropped del: generateNode.simps)
  have 2: "generateNode (backend_of linux) (ConditionOR [MapItem ''exe'' (PStr ''/bin/sh'')])
       = generateNode (backend_of linux) (MapItem ''exe'' (PStr ''/bin/sh''))"
    using and_or_collapsing [of "backend_of linux" "MapItem ''exe'' (PStr ''/bin/sh'')"]
    by (simp add: sh raw_string_result_def del: generateNode.simps)
  have 3: "generateNode (backend_of linux)
         (ConditionOR [MapItem ''type'' (PStr ''EXECVE''), MapItem ''exe'' (PStr ''/bin/sh''),
                       MapItem ''exe'' (PStr ''/bin/bash'')])
       = Inr (PDict [(''op'', PStr ''or''),
                     (''rules'', PList [
                        PDict [(''op'', PStr ''is''), (''path'', PStr ''event/FILE_PATH''),
                               (''value'', PStr ''/bin/sh''), (''case sensitive'', PBool False)],
                        PDict [(''op'', PStr ''is''), (''path'', PStr ''event/FILE_PATH''),
                               (''value'', PStr ''/bin/bash''), (''case sensitive'', PBool False)]])])"
    using and_or_collapsing [where self = "backend_of linux"
        and children = "[MapItem ''type'' (PStr ''EXECVE''), MapItem ''exe'' (PStr ''/bin/sh''),
                         MapItem ''exe'' (PStr ''/bin/bash'')]"
        and generated = "[PNone,
                  PDict [(''op'', PStr ''is''), (''path'', PStr ''event/FILE_PATH''),
                         (''value'', PStr ''/bin/sh''), (''case sensitive'', PBool False)],
                  PDict [(''op'', PStr ''is''), (''path'', PStr ''event/FILE_PATH''),
                         (''value'', PStr ''/bin/bash''), (''case sensitive'', PBool False)]]"] c
    by (simp add: not_None_def keyword_list_def del: generateNode.simps collect.simps)
  show ?thesis using 1 2 3 by (simp del: generateNode.simps)
qed

subsection \<open>C7: negation\<close>

text \<open>
  C7. \<^verbatim>\<open>Not(child)\<close> is null when the child translates to null; when the child translates
  to a dictionary it is that dictionary with \<^verbatim>\<open>not\<close> set to true and every other entry
  as it was; when the child translates to anything else, a raw value, it is the failure that
  negation is not available.
\<close>

theorem not_node:
  "(generateNode self child = Inr PNone \<longrightarrow> generateNode self (ConditionNOT child) = Inr PNone)
   \<and> (generateNode self child = Inr (PDict d) \<longrightarrow>
        generateNode self (ConditionNOT child) = Inr (PDict (dict_set d ''not'' (PBool True)))
        \<and> map_of (dict_set d ''not'' (PBool True)) ''not'' = Some (PBool True)
        \<and> (\<forall>k. k \<noteq> ''not'' \<longrightarrow> map_of (dict_set d ''not'' (PBool True)) k = map_of d k))
   \<and> (generateNode self child = Inr r \<and> r \<noteq> PNone \<and> (\<forall>d. r \<noteq> PDict d) \<longrightarrow>
        generateNode self (ConditionNOT child) = Inl not_on_raw_value)"
proof (intro conjI impI allI)
  assume "generateNode self child = Inr PNone"
  then show "generateNode self (ConditionNOT child) = Inr PNone"
    by (simp add: generateNOTNode_def)
next
  assume "generateNode self child = Inr (PDict d)"
  then show "generateNode self (ConditionNOT child) = Inr (PDict (dict_set d ''not'' (PBool True)))"
    by (simp add: generateNOTNode_def)
next
  show "map_of (dict_set d ''not'' (PBool True)) ''not'' = Some (PBool True)"
    by (simp add: map_of_dict_set)
next
  fix k :: string
  assume "k \<noteq> ''not''"
  then show "map_of (dict_set d ''not'' (PBool True)) k = map_of d k"
    by (simp add: map_of_dict_set)
next
  assume a: "generateNode self child = Inr r \<and> r \<noteq> PNone \<and> (\<forall>d. r \<noteq> PDict d)"
  then show "generateNode self (ConditionNOT child) = Inl not_on_raw_value"
    by (cases r) (simp_all add: generateNOTNode_def not_on_raw_value_def)
qed

theorem not_node_witness:
  "generateNode (backend_of linux) (ConditionNOT (MapItem ''type'' (PStr ''EXECVE''))) = Inr PNone
   \<and> generateNode (backend_of linux) (ConditionNOT (MapItem ''exe'' (PStr ''/bin/sh'')))
       = Inr (PDict [(''op'', PStr ''is''), (''path'', PStr ''event/FILE_PATH''), (''value'', PStr ''/bin/sh''),
                     (''case sensitive'', PBool False), (''not'', PBool True)])
   \<and> generateNode (backend_of linux) (ConditionNOT (MapItem ''exe'' PNone))
       = Inr (PDict [(''op'', PStr ''exists''), (''not'', PBool True), (''path'', PStr ''event/FILE_PATH'')])
   \<and> generateNode (backend_of linux) (ConditionNOT (ValueNode (PStr ''sh'')))
       = Inl (NotImplementedError ''Not operator not available on non-dict nodes.'')"
proof -
  have e: "generateNode (backend_of linux) (MapItem ''exe'' PNone)
     = Inr (PDict [(''op'', PStr ''exists''), (''not'', PBool True), (''path'', PStr ''event/FILE_PATH'')])"
    by (simp add: generateMapItemNode_def map_fieldname_def linux_backend)
  have a: "generateNode (backend_of linux) (MapItem ''type'' (PStr ''EXECVE'')) = Inr PNone"
    by (simp add: generateMapItemNode_def map_fieldname_def linux_backend)
  have l: "leaf (backend_of linux) ''event/FILE_PATH'' (PStr ''/bin/sh'') =
     PDict [(''op'', PStr ''is''), (''path'', PStr ''event/FILE_PATH''), (''value'', PStr ''/bin/sh''),
            (''case sensitive'', PBool False)]"
    by (rule leaf_plain) (simp_all add: startswith_star_def endswith_star_def)
  have b: "generateNode (backend_of linux) (MapItem ''exe'' (PStr ''/bin/sh''))
     = Inr (PDict [(''op'', PStr ''is''), (''path'', PStr ''event/FILE_PATH''), (''value'', PStr ''/bin/sh''),
            (''case sensitive'', PBool False)])"
    by (simp add: generateMapItemNode_def map_fieldname_def linux_backend l)
  have c: "generateNode (backend_of linux) (ValueNode (PStr ''sh'')) = Inr (PStr ''sh'')"
    by (simp add: generateValueNode_def)
  show ?thesis
    using not_node [of "backend_of linux" "MapItem ''type'' (PStr ''EXECVE'')"] a
      not_node [of "backend_of linux" "MapItem ''exe'' (PStr ''/bin/sh'')"
        "[(''op'', PStr ''is''), (''path'', PStr ''event/FILE_PATH''), (''value'', PStr ''/bin/sh''),
            (''case sensitive'', PBool False)]"] b
      not_node [of "backend_of linux" "MapItem ''exe'' PNone"
        "[(''op'', PStr ''exists''), (''not'', PBool True), (''path'', PStr ''event/FILE_PATH'')]"] e
      not_node [of "backend_of linux" "ValueNode (PStr ''sh'')" _ "PStr ''sh''"] c
    by (simp add: not_on_raw_value_def del: generateNode.simps)
qed

subsection \<open>C8: the metadata of the report\<close>

text \<open>
  C8. The report of the respond block carries a \<^verbatim>\<open>metadata\<close> object if and only if one of
  tags, description, references, level, author is present on the rule; the object holds the
  present attributes and nothing else, each with the value the rule has for it, in the order
  tags, description, references, level, author. (Present: the rule has a value other than
  \<^verbatim>\<open>None\<close> under the key, which is the test the code makes.)
\<close>

theorem respond_metadata:
  "respondComponents sp =
     PList [PDict ([(''action'', PStr ''report''), (''name'', PStr (title sp))]
                   @ (if spec_metadata sp = [] then [] else [(''metadata'', PDict (spec_metadata sp))]))]
   \<and> (metadata_of (respondComponents sp) = None) = (\<forall>key\<in>set metadata_keys. attribute sp key = None)
   \<and> (metadata_of (respondComponents sp) \<noteq> None \<longrightarrow>
        metadata_of (respondComponents sp) = Some (PDict (spec_metadata sp)))
   \<and> map fst (spec_metadata sp) = filter (\<lambda>key. attribute sp key \<noteq> None) metadata_keys
   \<and> (\<forall>key v. (key, v) \<in> set (spec_metadata sp) \<longrightarrow> map_of (parsedyaml sp) key = Some v)"
proof -
  have m: "metadata_of (respondComponents sp) =
             (if spec_metadata sp = [] then None else Some (PDict (spec_metadata sp)))"
    by (simp add: respond_report_with report_with_def metadata_of_def)
  have v: "\<forall>key v. (key, v) \<in> set (spec_metadata sp) \<longrightarrow> map_of (parsedyaml sp) key = Some v"
    using spec_metadata_values [of _ _ sp] attribute_Some [of sp] by blast
  show ?thesis
    using v spec_metadata_empty [of sp]
    by (simp add: m spec_metadata_keys) (simp add: respond_report_with report_with_def)
qed

theorem respond_metadata_witness:
  "respondComponents attributed_rule =
     PList [PDict [(''action'', PStr ''report''), (''name'', PStr ''T1''),
                   (''metadata'', PDict [(''tags'', PList [PStr ''attack.t1059'']),
                                         (''level'', PStr ''high''),
                                         (''author'', PStr ''someone'')])]]
   \<and> metadata_of (respondComponents attributed_rule)
       = Some (PDict [(''tags'', PList [PStr ''attack.t1059'']), (''level'', PStr ''high''),
                      (''author'', PStr ''someone'')])
   \<and> respondComponents (attributed_rule\<lparr>parsedyaml := [(''status'', PStr ''stable'')]\<rparr>) =
       PList [PDict [(''action'', PStr ''report''), (''name'', PStr ''T1'')]]"
proof -
  have a: "spec_metadata attributed_rule =
             [(''tags'', PList [PStr ''attack.t1059'']), (''level'', PStr ''high''),
              (''author'', PStr ''someone'')]"
    by (simp add: spec_metadata_entries entry_def attribute_def attributed_rule_def)
  have b: "spec_metadata (attributed_rule\<lparr>parsedyaml := [(''status'', PStr ''stable'')]\<rparr>) = []"
    by (simp add: spec_metadata_entries entry_def attribute_def)
  have t: "title attributed_rule = ''T1''"
    by (simp add: attributed_rule_def)
  have r: "respondComponents attributed_rule =
     PList [PDict [(''action'', PStr ''report''), (''name'', PStr ''T1''),
                   (''metadata'', PDict [(''tags'', PList [PStr ''attack.t1059'']),
                                         (''level'', PStr ''high''),
                                         (''author'', PStr ''someone'')])]]"
    using respond_metadata [of attributed_rule] by (simp add: a t)
  have n: "respondComponents (attributed_rule\<lparr>parsedyaml := [(''status'', PStr ''stable'')]\<rparr>) =
       PList [PDict [(''action'', PStr ''report''), (''name'', PStr ''T1'')]]"
    using respond_metadata [of "attributed_rule\<lparr>parsedyaml := [(''status'', PStr ''stable'')]\<rparr>"]
    by (simp add: b t)
  show ?thesis
    by (simp add: r n metadata_of_def)
qed

subsection \<open>C9: the mapping context and the backend object\<close>

text \<open>
  C9 as the specification states it: the context of a call is discarded when the call ends and
  is not kept in the state of the object. In the code the object holds the context of the
  Linux rule after the call, and still holds it after a later call for a rule whose log source
  has no context.
\<close>

theorem context_retained_counterexample:
  "snd (generate None linux_rule) = Some (backend_of linux)
   \<and> snd (generate (snd (generate None linux_rule)) macos_rule) = Some (backend_of linux)
   \<and> self_preCondition (backend_of linux) = Some [(''op'', PStr ''is linux'')]
   \<and> self_isKeywordsSupported (backend_of linux)"
  by (simp add: generate_object linux_rule_context macos_rule_context)
     (simp add: backend_of_def linux_def)

text \<open>
  C9, amended. A top-level call that finds a context assigns it to the four attributes of the
  object, where it stays after the call; a call that finds none leaves the object as it was.
  What a call returns, document or failure, does not depend on what the object held before.
\<close>

theorem context_assigned_by_every_call:
  "fst (generate self sp) = fst (generate self' sp)
   \<and> snd (generate self sp) =
       (case map_of allFieldMappings (mappingKey sp) of
          None \<Rightarrow> self
        | Some cfg \<Rightarrow> Some (backend_of cfg))"
  by (simp add: generate_def assign_context_all Let_def split: option.splits)

theorem context_assigned_by_every_call_witness:
  "fst (generate (snd (generate None linux_rule)) sysmon_rule) = fst (generate None sysmon_rule)
   \<and> snd (generate (snd (generate None linux_rule)) sysmon_rule) = Some (backend_of windows_event_log)"
proof -
  have m: "map_of allFieldMappings (mappingKey sysmon_rule) = Some windows_event_log"
    by (simp add: mappingKey_def sysmon_rule_def allFieldMappings_def)
  show ?thesis
    using context_assigned_by_every_call [of "snd (generate None linux_rule)" sysmon_rule None]
    by (simp add: m)
qed

subsection \<open>C10: the keyword field is looked up without a guard\<close>

text \<open>
  C10. Under a context with keyword support and a mapping table, the keyword list of an Or
  node takes its path from the entry \<^verbatim>\<open>keywords\<close> of the table, and a table without that
  entry gives a \<^verbatim>\<open>KeyError\<close>, which is not one of the failures the backend raises itself.
  The network-flow context declares keyword support and its table has no such entry: every
  keyword list under it ends in that \<^verbatim>\<open>KeyError\<close>.
\<close>

theorem keywords_lookup_unguarded:
  "(collect (generateNode self) children = Inr generated \<and> keyword_list (not_None generated)
      \<and> self_isKeywordsSupported self \<and> self_fieldMappingInEffect self = Table t \<longrightarrow>
      generateNode self (ConditionOR children) =
        (case map_of t ''keywords'' of
           None \<Rightarrow> Inl (KeyError ''keywords'')
         | Some p \<Rightarrow> Inr (collapse ''or'' (map (keyword_match self (path_obj p)) (not_None generated)))))
   \<and> isKeywordsSupported netflow
   \<and> (\<exists>t. fieldMappings netflow = Table t \<and> map_of t ''keywords'' = None)
   \<and> (collect (generateNode (backend_of netflow)) children = Inr generated
        \<and> keyword_list (not_None generated) \<longrightarrow>
      generateNode (backend_of netflow) (ConditionOR children) = Inl (KeyError ''keywords''))"
proof (intro conjI impI)
  assume a: "collect (generateNode self) children = Inr generated \<and> keyword_list (not_None generated)
      \<and> self_isKeywordsSupported self \<and> self_fieldMappingInEffect self = Table t"
  show "generateNode self (ConditionOR children) =
        (case map_of t ''keywords'' of
           None \<Rightarrow> Inl (KeyError ''keywords'')
         | Some p \<Rightarrow> Inr (collapse ''or'' (map (keyword_match self (path_obj p)) (not_None generated))))"
  proof (cases "map_of t ''keywords''")
    case None
    then have "keywords_path self = Inl (KeyError ''keywords'')"
      using a by (simp add: keywords_path_table)
    then show ?thesis
      using a None generateORNode_keywords_error [of "generateNode self" children generated self]
      by simp
  next
    case (Some p)
    then have "keywords_path self = Inr (path_obj p)"
      using a by (simp add: keywords_path_table)
    then show ?thesis
      using a Some generateORNode_keywords [of "generateNode self" children generated self]
      by simp
  qed
next
  show "isKeywordsSupported netflow"
    by (simp add: netflow_def)
next
  show "\<exists>t. fieldMappings netflow = Table t \<and> map_of t ''keywords'' = None"
    by (simp add: netflow_def)
next
  assume a: "collect (generateNode (backend_of netflow)) children = Inr generated
        \<and> keyword_list (not_None generated)"
  have "keywords_path (backend_of netflow) = Inl (KeyError ''keywords'')"
    by (simp add: keywords_path_table [OF netflow_backend(1)])
  then show "generateNode (backend_of netflow) (ConditionOR children) = Inl (KeyError ''keywords'')"
    using a generateORNode_keywords_error [of "generateNode (backend_of netflow)" children generated
        "backend_of netflow"] netflow_backend(2)
    by simp
qed

theorem keywords_lookup_unguarded_witness:
  "generateNode (backend_of netflow) (ConditionOR [ValueNode (PStr ''foo*''), ValueNode (PStr ''*bar'')])
     = Inl (KeyError ''keywords'')
   \<and> generateNode (backend_of linux) (ConditionOR [ValueNode (PStr ''foo*''), ValueNode (PStr ''*bar'')])
     = Inr (PDict [(''op'', PStr ''or''),
                   (''rules'', PList [
                      PDict [(''op'', PStr ''starts with''), (''path'', PStr ''event/COMMAND_LINE''),
                             (''value'', PStr ''foo'')],
                      PDict [(''op'', PStr ''ends with''), (''path'', PStr ''event/COMMAND_LINE''),
                             (''value'', PStr ''bar'')]])])"
proof -
  have k: "keyword_list (not_None [PStr ''foo*'', PStr ''*bar''])"
    by (simp add: keyword_list_def not_None_def)
  have n: "not_None [PStr ''foo*'', PStr ''*bar''] = [PStr ''foo*'', PStr ''*bar'']"
    by (simp add: not_None_def)
  have m1: "keyword_match (backend_of linux) (PStr ''event/COMMAND_LINE'') (PStr ''foo*'')
      = PDict [(''op'', PStr ''starts with''), (''path'', PStr ''event/COMMAND_LINE''), (''value'', PStr ''foo'')]"
    by (simp add: keyword_match_def valuePatternToLcOp_def startswith_star_def endswith_star_def)
  have m2: "keyword_match (backend_of linux) (PStr ''event/COMMAND_LINE'') (PStr ''*bar'')
      = PDict [(''op'', PStr ''ends with''), (''path'', PStr ''event/COMMAND_LINE''), (''value'', PStr ''bar'')]"
    by (simp add: keyword_match_def valuePatternToLcOp_def startswith_star_def endswith_star_def)
  have 1: "generateNode (backend_of netflow) (ConditionOR [ValueNode (PStr ''foo*''), ValueNode (PStr ''*bar'')])
     = Inl (KeyError ''keywords'')"
    using keywords_lookup_unguarded [where children = "[ValueNode (PStr ''foo*''), ValueNode (PStr ''*bar'')]"
        and generated = "[PStr ''foo*'', PStr ''*bar'']"] k
      collect_values [of "backend_of netflow" "PStr ''foo*''" "PStr ''*bar''"]
    by (simp del: generateNode.simps collect.simps)
  have 2: "generateNode (backend_of linux) (ConditionOR [ValueNode (PStr ''foo*''), ValueNode (PStr ''*bar'')])
     = Inr (PDict [(''op'', PStr ''or''),
                   (''rules'', PList [
                      PDict [(''op'', PStr ''starts with''), (''path'', PStr ''event/COMMAND_LINE''),
                             (''value'', PStr ''foo'')],
                      PDict [(''op'', PStr ''ends with''), (''path'', PStr ''event/COMMAND_LINE''),
                             (''value'', PStr ''bar'')]])])"
    using keywords_lookup_unguarded [where self = "backend_of linux"
        and children = "[ValueNode (PStr ''foo*''), ValueNode (PStr ''*bar'')]"
        and generated = "[PStr ''foo*'', PStr ''*bar'']"
        and t = "[(''keywords'', Some ''event/COMMAND_LINE''), (''exe'', Some ''event/FILE_PATH''), (''type'', None)]"]
      k collect_values [of "backend_of linux" "PStr ''foo*''" "PStr ''*bar''"] linux_backend
    by (simp add: n m1 m2 path_obj_def del: generateNode.simps collect.simps)
  show ?thesis using 1 2 by (simp del: generateNode.simps)
qed

end
